theory Spec2Isabelle
  imports Complex_Main "HOL-Library.Multiset"
begin

section \<open>The race variant of game.js: data\<close>

text \<open>
  The model follows the second program of \<^verbatim>\<open>game.js\<close> (the race with obstacles, track
  segments, finish line and best time). JavaScript numbers are modelled as real numbers:
  rounding, overflow and NaN of IEEE doubles are outside the model. Module-level variables
  (\<^verbatim>\<open>vehicleState\<close>, \<^verbatim>\<open>gameState\<close>, \<^verbatim>\<open>car\<close>, \<^verbatim>\<open>camera\<close>, ...) are the fields of one
  record \<open>world\<close> that every function takes and returns.
\<close>

text \<open>\<^verbatim>\<open>THREE.Vector3\<close>: the fields \<^verbatim>\<open>x\<close>, \<^verbatim>\<open>y\<close>, \<^verbatim>\<open>z\<close>.\<close>

record vec3 =
  vec_x :: real
  vec_y :: real
  vec_z :: real

text \<open>\<^verbatim>\<open>THREE.Box3\<close>: the fields \<^verbatim>\<open>min\<close> and \<^verbatim>\<open>max\<close>.\<close>

record box3 =
  box_min :: vec3
  box_max :: vec3

text \<open>An entry of \<^verbatim>\<open>gameState.trackSegments\<close>: \<^verbatim>\<open>{ start, end, xOffset, width }\<close>.\<close>

record segment =
  seg_start :: real
  seg_end :: real
  xOffset :: real
  width :: real

text \<open>The object \<^verbatim>\<open>vehicleState\<close>, with its tuning constants and the five control flags.\<close>

record vehicleState =
  rotation :: real
  velocity :: real
  steerAngle :: real
  driftAngle :: real
  driftVelocity :: real
  isDrifting :: bool
  driftFactor :: real
  maxSpeed :: real
  acceleration :: real
  deceleration :: real
  brakeForce :: real
  steerSpeed :: real
  maxSteerAngle :: real
  friction :: real
  driftFriction :: real
  driftMultiplier :: real
  cameraDistance :: real
  cameraHeight :: real
  cameraLookAhead :: real
  cameraSmooth :: real
  accelerating :: bool
  braking :: bool
  steeringLeft :: bool
  steeringRight :: bool
  handbrake :: bool

text \<open>The object \<^verbatim>\<open>gameState\<close>; \<^verbatim>\<open>bestTime\<close> is a string or null.\<close>

record gameState =
  isPlaying :: bool
  isCountingDown :: bool
  countdown :: int
  raceTime :: real
  bestTime :: "string option"
  hasWon :: bool
  hasLost :: bool
  freeRoam :: bool
  startPosition :: vec3
  finishLineZ :: real
  carGroundLevel :: real
  trackSegments :: "segment list"

text \<open>
  The scene object \<^verbatim>\<open>car\<close>: its \<^verbatim>\<open>position\<close>, its Euler \<^verbatim>\<open>rotation\<close> and \<^verbatim>\<open>visible\<close>.
\<close>

record object3d =
  car_position :: vec3
  car_rotation :: vec3
  car_visible :: bool

text \<open>
  The \<^verbatim>\<open>camera\<close>: its \<^verbatim>\<open>position\<close>, and its orientation, which \<^verbatim>\<open>camera.lookAt\<close> sets from
  the camera position at the call (\<open>cam_eye\<close>) and the target passed (\<open>cam_target\<close>).
\<close>

record camera =
  cam_position :: vec3
  cam_eye :: vec3
  cam_target :: vec3

text \<open>
  What the page shows. \<^verbatim>\<open>messageElement.innerHTML\<close> is a list of the blocks the code
  writes: the win banner with the time, the new-record notice with the previous best, the
  loss banner with its message. \<^verbatim>\<open>recordElement.innerHTML\<close> is the time it displays.
\<close>

datatype fragment = YouWon string | NewRecord string | Lost string

record page =
  messageHTML :: "fragment list"
  messageShown :: bool
  timerShown :: bool
  recordHTML :: "string option"
  pulseAnimation :: bool

text \<open>
  The result of \<^verbatim>\<open>parseFloat\<close>: a finite number, NaN or an infinity.
\<close>

datatype number = Num real | NaN | PosInfinity | NegInfinity

text \<open>
  What the program calls in the browser and in three.js and that depends on data outside
  \<^verbatim>\<open>game.js\<close>: the bounding box of the car's meshes (\<^verbatim>\<open>Box3.setFromObject\<close>), the direction a
  camera looks in (\<^verbatim>\<open>getWorldDirection\<close>), \<^verbatim>\<open>Number.prototype.toFixed(2)\<close> and
  \<^verbatim>\<open>parseFloat\<close>. They are parameters of the model.
\<close>

record host =
  setFromObject :: "object3d \<Rightarrow> box3"
  getWorldDirection :: "camera \<Rightarrow> vec3"
  toFixed2 :: "real \<Rightarrow> string"
  parseFloat :: "string \<Rightarrow> number"

text \<open>
  The module-level state. \<open>obstacles\<close> holds the world position of each tree group,
  \<open>localStorage\<close> the value stored under the key \<^verbatim>\<open>'bestTime'\<close> (None for null), and
  \<open>explosions\<close> the positions \<^verbatim>\<open>createExplosion\<close> was called with (its particles are random
  and are not modelled).
\<close>

record world =
  vehicle :: vehicleState
  game :: gameState
  car :: "object3d option"
  carBoundingBox :: "box3 option"
  obstacles :: "vec3 list"
  camera :: camera
  localStorage :: "string option"
  document :: page
  explosions :: "vec3 list"

section \<open>three.js vectors, boxes and MathUtils\<close>

definition vadd :: "vec3 \<Rightarrow> vec3 \<Rightarrow> vec3" where
  "vadd a b = \<lparr>vec_x = vec_x a + vec_x b, vec_y = vec_y a + vec_y b, vec_z = vec_z a + vec_z b\<rparr>"

definition vsub :: "vec3 \<Rightarrow> vec3 \<Rightarrow> vec3" where
  "vsub a b = \<lparr>vec_x = vec_x a - vec_x b, vec_y = vec_y a - vec_y b, vec_z = vec_z a - vec_z b\<rparr>"

definition multiplyScalar :: "vec3 \<Rightarrow> real \<Rightarrow> vec3" where
  "multiplyScalar a s = \<lparr>vec_x = vec_x a * s, vec_y = vec_y a * s, vec_z = vec_z a * s\<rparr>"

text \<open>\<^verbatim>\<open>Vector3.lerp(v, alpha)\<close>: each component \<^verbatim>\<open>this.x += (v.x - this.x) * alpha\<close>.\<close>

definition vlerp :: "vec3 \<Rightarrow> vec3 \<Rightarrow> real \<Rightarrow> vec3" where
  "vlerp a v alpha =
     \<lparr>vec_x = vec_x a + (vec_x v - vec_x a) * alpha,
      vec_y = vec_y a + (vec_y v - vec_y a) * alpha,
      vec_z = vec_z a + (vec_z v - vec_z a) * alpha\<rparr>"

definition isEmpty :: "box3 \<Rightarrow> bool" where
  "isEmpty b \<longleftrightarrow>
     vec_x (box_max b) < vec_x (box_min b) \<or> vec_y (box_max b) < vec_y (box_min b)
     \<or> vec_z (box_max b) < vec_z (box_min b)"

definition getCenter :: "box3 \<Rightarrow> vec3" where
  "getCenter b =
     (if isEmpty b then \<lparr>vec_x = 0, vec_y = 0, vec_z = 0\<rparr>
      else multiplyScalar (vadd (box_min b) (box_max b)) 0.5)"

definition getSize :: "box3 \<Rightarrow> vec3" where
  "getSize b =
     (if isEmpty b then \<lparr>vec_x = 0, vec_y = 0, vec_z = 0\<rparr> else vsub (box_max b) (box_min b))"

definition setFromCenterAndSize :: "vec3 \<Rightarrow> vec3 \<Rightarrow> box3" where
  "setFromCenterAndSize center sz =
     (let halfSize = multiplyScalar sz 0.5
      in \<lparr>box_min = vsub center halfSize, box_max = vadd center halfSize\<rparr>)"

definition intersectsBox :: "box3 \<Rightarrow> box3 \<Rightarrow> bool" where
  "intersectsBox this box \<longleftrightarrow>
     vec_x (box_max box) \<ge> vec_x (box_min this) \<and> vec_x (box_min box) \<le> vec_x (box_max this)
     \<and> vec_y (box_max box) \<ge> vec_y (box_min this) \<and> vec_y (box_min box) \<le> vec_y (box_max this)
     \<and> vec_z (box_max box) \<ge> vec_z (box_min this) \<and> vec_z (box_min box) \<le> vec_z (box_max this)"

text \<open>\<^verbatim>\<open>THREE.MathUtils.lerp(x, y, t)\<close> and \<^verbatim>\<open>THREE.MathUtils.clamp(value, min, max)\<close>.\<close>

definition lerp :: "real \<Rightarrow> real \<Rightarrow> real \<Rightarrow> real" where
  "lerp x y t = (1 - t) * x + t * y"

definition clamp :: "real \<Rightarrow> real \<Rightarrow> real \<Rightarrow> real" where
  "clamp val lo hi = max lo (min hi val)"

section \<open>gameOver: entering Won or Lost\<close>

text \<open>The comparison \<^verbatim>\<open>t < parseFloat(s)\<close> of a finite \<open>t\<close> with a parsed number.\<close>

fun js_lt :: "real \<Rightarrow> number \<Rightarrow> bool" where
  "js_lt t (Num b) = (t < b)"
| "js_lt t NaN = False"
| "js_lt t PosInfinity = True"
| "js_lt t NegInfinity = False"

text \<open>
  The condition \<^verbatim>\<open>!previousBest || gameState.raceTime < parseFloat(previousBest)\<close>:
  null and the empty string are falsy.
\<close>

definition isNewRecord :: "host \<Rightarrow> real \<Rightarrow> string option \<Rightarrow> bool" where
  "isNewRecord h t previousBest =
     (case previousBest of
        None \<Rightarrow> True
      | Some s \<Rightarrow> s = [] \<or> js_lt t (parseFloat h s))"

text \<open>\<^verbatim>\<open>previousBest || 'N/A'\<close> and \<^verbatim>\<open>reason || "YOU CRASHED!"\<close>.\<close>

definition orElse :: "string option \<Rightarrow> string \<Rightarrow> string" where
  "orElse v d = (case v of None \<Rightarrow> d | Some s \<Rightarrow> if s = [] then d else s)"

text \<open>
  The branch \<^verbatim>\<open>if (won) { ... }\<close> of \<^verbatim>\<open>gameOver\<close>: the win banner, then the best-time check.
  The listeners of the two buttons are installed later by a timer and are not modelled.
\<close>

definition wonBranch :: "host \<Rightarrow> world \<Rightarrow> world" where
  "wonBranch h w =
     (let time = toFixed2 h (raceTime (game w));
          w1 = w\<lparr>document := (document w)\<lparr>messageHTML := [YouWon time]\<rparr>\<rparr>;
          previousBest = localStorage w1
      in if isNewRecord h (raceTime (game w1)) previousBest
         then w1\<lparr>game := (game w1)\<lparr>bestTime := Some time\<rparr>,
                 localStorage := Some time,
                 document := (document w1)
                   \<lparr>messageHTML := messageHTML (document w1) @ [NewRecord (orElse previousBest ''N/A'')],
                    recordHTML := Some time,
                    pulseAnimation := True\<rparr>\<rparr>
         else w1)"

definition gameOver :: "host \<Rightarrow> bool \<Rightarrow> string option \<Rightarrow> world \<Rightarrow> world" where
  "gameOver h won reason w =
     (let w1 = w\<lparr>game := (game w)\<lparr>isPlaying := False, hasWon := won, hasLost := \<not> won\<rparr>\<rparr>;
          w2 = (if won then wonBranch h w1
                else w1\<lparr>document := (document w1)
                         \<lparr>messageHTML := [Lost (orElse reason ''YOU CRASHED!'')]\<rparr>\<rparr>);
          w3 = w2\<lparr>document := (document w2)\<lparr>messageShown := True, timerShown := False\<rparr>\<rparr>
      in w3\<lparr>vehicle := (vehicle w3)\<lparr>velocity := 0, accelerating := False, braking := False\<rparr>\<rparr>)"

section \<open>checkCollisions\<close>

text \<open>
  The car's bounding box, shrunk to 75% around its centre
  (\<^verbatim>\<open>setFromObject\<close>, \<^verbatim>\<open>getCenter\<close>, \<^verbatim>\<open>getSize\<close>, \<^verbatim>\<open>multiplyScalar(0.75)\<close>,
  \<^verbatim>\<open>setFromCenterAndSize\<close>).
\<close>

definition shrunkCarBox :: "host \<Rightarrow> object3d \<Rightarrow> box3" where
  "shrunkCarBox h c =
     (let bb = setFromObject h c;
          carCenter = getCenter bb;
          carSize = multiplyScalar (getSize bb) 0.75
      in setFromCenterAndSize carCenter carSize)"

text \<open>
  The collision box of one obstacle: centred at its world position with \<^verbatim>\<open>y = 1\<close>, of the
  fixed size \<^verbatim>\<open>(1.2, 4.0, 1.2)\<close>.
\<close>

definition trunkBox :: "vec3 \<Rightarrow> box3" where
  "trunkBox obstacleCenter =
     setFromCenterAndSize (obstacleCenter\<lparr>vec_y := 1\<rparr>) \<lparr>vec_x = 1.2, vec_y = 4.0, vec_z = 1.2\<rparr>"

text \<open>
  The loop over \<^verbatim>\<open>obstacles\<close>: True when it reaches an obstacle whose box the car's box
  intersects (where the source calls \<^verbatim>\<open>gameOver(false)\<close> and returns).
\<close>

fun hitsObstacle :: "box3 \<Rightarrow> vec3 list \<Rightarrow> bool" where
  "hitsObstacle bb [] = False"
| "hitsObstacle bb (obstacle # rest) =
     (if intersectsBox bb (trunkBox obstacle) then True else hitsObstacle bb rest)"

text \<open>The loop over \<^verbatim>\<open>gameState.trackSegments\<close>: the final value of \<^verbatim>\<open>onTrack\<close>.\<close>

fun onTrack :: "real \<Rightarrow> real \<Rightarrow> segment list \<Rightarrow> bool" where
  "onTrack carZ carX [] = False"
| "onTrack carZ carX (s # rest) =
     (if carZ \<le> seg_start s \<and> carZ \<ge> seg_end s
      then (let leftLimit = xOffset s - width s / 2;
                rightLimit = xOffset s + width s / 2
            in if carX \<ge> leftLimit \<and> carX \<le> rightLimit then True
               else onTrack carZ carX rest)
      else onTrack carZ carX rest)"

definition checkCollisions :: "host \<Rightarrow> world \<Rightarrow> world" where
  "checkCollisions h w =
     (case car w of
        None \<Rightarrow> w
      | Some c \<Rightarrow>
          (case carBoundingBox w of
             None \<Rightarrow> w
           | Some _ \<Rightarrow>
               if \<not> isPlaying (game w) then w
               else
                 let bb = shrunkCarBox h c;
                     w1 = w\<lparr>carBoundingBox := Some bb\<rparr>
                 in if hitsObstacle bb (obstacles w1)
                    then gameOver h False None
                           (w1\<lparr>explosions := explosions w1 @ [car_position c],
                               car := Some (c\<lparr>car_visible := False\<rparr>)\<rparr>)
                    else if vec_z (car_position c) < finishLineZ (game w1)
                    then gameOver h True None w1
                    else
                      let carZ = vec_z (car_position c);
                          carX = vec_x (car_position c)
                      in if \<not> onTrack carZ carX (trackSegments (game w1)) \<and> carZ < 0
                         then gameOver h False (Some ''OUT OF BOUNDS!'') w1
                         else w1))"

section \<open>updateCarCamera\<close>

definition idealPosition :: "vehicleState \<Rightarrow> object3d \<Rightarrow> vec3" where
  "idealPosition v c =
     (let idealOffset = \<lparr>vec_x = - sin (rotation v) * cameraDistance v,
                         vec_y = cameraHeight v,
                         vec_z = - cos (rotation v) * cameraDistance v\<rparr>;
          speedOffset = velocity v * 0.1
      in vadd (car_position c) (multiplyScalar idealOffset (1 + \<bar>speedOffset\<bar> * 0.05)))"

definition idealLookAt :: "vehicleState \<Rightarrow> object3d \<Rightarrow> vec3" where
  "idealLookAt v c =
     (let lookAheadDistance = cameraLookAhead v + \<bar>velocity v\<bar> * 0.2
      in \<lparr>vec_x = vec_x (car_position c) + sin (rotation v) * lookAheadDistance,
          vec_y = vec_y (car_position c) + 1,
          vec_z = vec_z (car_position c) + cos (rotation v) * lookAheadDistance\<rparr>)"

text \<open>\<^verbatim>\<open>camera.lookAt(t)\<close>: the camera, where it is, turns to the target.\<close>

definition lookAt :: "vec3 \<Rightarrow> camera \<Rightarrow> camera" where
  "lookAt t cam = cam\<lparr>cam_eye := cam_position cam, cam_target := t\<rparr>"

definition updateCarCamera :: "host \<Rightarrow> real \<Rightarrow> world \<Rightarrow> world" where
  "updateCarCamera h delta w =
     (case car w of
        None \<Rightarrow> w
      | Some c \<Rightarrow>
          let v = vehicle w in
          if delta > 0
          then
            let cam1 = (camera w)\<lparr>cam_position :=
                         vlerp (cam_position (camera w)) (idealPosition v c) (cameraSmooth v * delta)\<rparr>;
                currentLookAt = vadd (multiplyScalar (getWorldDirection h cam1) 10) (cam_position cam1)
            in w\<lparr>camera := lookAt (vlerp currentLookAt (idealLookAt v c) (cameraSmooth v * delta)) cam1\<rparr>
          else
            w\<lparr>camera := lookAt (idealLookAt v c) ((camera w)\<lparr>cam_position := idealPosition v c\<rparr>)\<rparr>)"

section \<open>updateVehiclePhysics\<close>

text \<open>
  The body of \<^verbatim>\<open>updateVehiclePhysics\<close> is a sequence of blocks, each under its own comment
  in the source; each block is one function here, in the order of the source.
\<close>

text \<open>Steering: the target angle adds the contributions of the two flags.\<close>

definition targetSteerAngle :: "vehicleState \<Rightarrow> real" where
  "targetSteerAngle v =
     (if steeringLeft v then maxSteerAngle v else 0)
     + (if steeringRight v then - maxSteerAngle v else 0)"

definition steering :: "real \<Rightarrow> vehicleState \<Rightarrow> vehicleState" where
  "steering delta v =
     v\<lparr>steerAngle := lerp (steerAngle v) (targetSteerAngle v) (steerSpeed v * delta * 3)\<rparr>"

text \<open>Acceleration and braking, with the natural deceleration that stops at zero.\<close>

definition accelerationAndBraking :: "real \<Rightarrow> vehicleState \<Rightarrow> vehicleState" where
  "accelerationAndBraking delta v =
     (if accelerating v then v\<lparr>velocity := velocity v + acceleration v * delta\<rparr>
      else if braking v then v\<lparr>velocity := velocity v - brakeForce v * delta\<rparr>
      else if velocity v > 0
      then (let u = velocity v - friction v * delta
            in v\<lparr>velocity := (if u < 0 then 0 else u)\<rparr>)
      else if velocity v < 0
      then (let u = velocity v + friction v * delta
            in v\<lparr>velocity := (if u > 0 then 0 else u)\<rparr>)
      else v)"

text \<open>The drift system; it also moves the car sideways while drifting.\<close>

definition driftSystem :: "real \<Rightarrow> vehicleState \<Rightarrow> object3d \<Rightarrow> vehicleState \<times> object3d" where
  "driftSystem delta v c =
     (if handbrake v \<and> \<bar>velocity v\<bar> > 3
      then
        let v1 = v\<lparr>isDrifting := True,
                   driftFactor := min (driftFactor v + delta * 3) 1,
                   velocity := velocity v * driftFriction v\<rparr>;
            v2 = (if steeringLeft v1 \<or> steeringRight v1
                  then
                    let driftDirection = (if steeringLeft v1 then 1 else - 1)
                    in v1\<lparr>driftAngle := driftAngle v1 + driftDirection * velocity v1 * 0.05 * delta,
                          driftVelocity := velocity v1 * 0.3\<rparr>
                  else v1);
            lateralDrift = sin (driftAngle v2) * driftVelocity v2 * delta;
            p = car_position c
        in (v2, c\<lparr>car_position :=
                    p\<lparr>vec_x := vec_x p + cos (rotation v2) * lateralDrift * driftFactor v2,
                      vec_z := vec_z p - sin (rotation v2) * lateralDrift * driftFactor v2\<rparr>\<rparr>)
      else
        let v1 = v\<lparr>driftFactor := max (driftFactor v - delta * 2) 0,
                   driftAngle := driftAngle v * 0.9,
                   driftVelocity := driftVelocity v * 0.9\<rparr>
        in (if driftFactor v1 < 0.1 then v1\<lparr>isDrifting := False\<rparr> else v1, c))"

text \<open>Limit speed.\<close>

definition limitSpeed :: "vehicleState \<Rightarrow> vehicleState" where
  "limitSpeed v = v\<lparr>velocity := clamp (velocity v) (- maxSpeed v * 0.3) (maxSpeed v)\<rparr>"

text \<open>Apply steering: the heading turns only above the speed 0.1.\<close>

definition applySteering :: "real \<Rightarrow> vehicleState \<Rightarrow> vehicleState" where
  "applySteering delta v =
     (if \<bar>velocity v\<bar> > 0.1
      then
        let steerMultiplier = (if isDrifting v then driftMultiplier v else 1);
            steerInfluence = steerAngle v * min (\<bar>velocity v\<bar> / 5) 1 * steerMultiplier
        in v\<lparr>rotation := rotation v + steerInfluence * velocity v * delta\<rparr>
      else v)"

text \<open>
  Apply the rotation to the car, move it along the heading, keep it at the ground level.
\<close>

definition moveCar :: "real \<Rightarrow> real \<Rightarrow> vehicleState \<Rightarrow> object3d \<Rightarrow> object3d" where
  "moveCar delta ground v c =
     (let c1 = c\<lparr>car_rotation := (car_rotation c)\<lparr>vec_y := rotation v - pi / 2\<rparr>\<rparr>;
          moveDistance = velocity v * delta;
          p = car_position c1;
          p1 = p\<lparr>vec_x := vec_x p + sin (rotation v) * moveDistance,
                 vec_z := vec_z p + cos (rotation v) * moveDistance\<rparr>
      in c1\<lparr>car_position := p1\<lparr>vec_y := ground\<rparr>\<rparr>)"

text \<open>Tilt the car in curves; \<open>now\<close> is the value of \<^verbatim>\<open>Date.now()\<close>.\<close>

definition tiltCar :: "real \<Rightarrow> vehicleState \<Rightarrow> object3d \<Rightarrow> object3d" where
  "tiltCar now v c =
     (let tiltMultiplier = (if isDrifting v then 0.06 else 0.02);
          r = (car_rotation c)\<lparr>vec_z := - steerAngle v * velocity v * tiltMultiplier\<rparr>
      in if isDrifting v
         then
           let driftOscillation = sin (now * 0.01) * 0.02 * driftFactor v
           in c\<lparr>car_rotation := r\<lparr>vec_y := vec_y r + driftOscillation,
                                   vec_x := - driftFactor v * 0.05\<rparr>\<rparr>
         else c\<lparr>car_rotation := r\<lparr>vec_x := 0\<rparr>\<rparr>)"

text \<open>
  The blocks from \<^verbatim>\<open>// Steering\<close> to \<^verbatim>\<open>// Tilt car in curves\<close>, for the loaded car \<open>c\<close>:
  the part of \<^verbatim>\<open>updateVehiclePhysics\<close> between its guard and the collision check.
\<close>

definition physicsBlocks :: "real \<Rightarrow> real \<Rightarrow> world \<Rightarrow> object3d \<Rightarrow> world" where
  "physicsBlocks now delta w c =
     (let v1 = steering delta (vehicle w);
          v2 = accelerationAndBraking delta v1;
          (v3, c3) = driftSystem delta v2 c;
          v4 = limitSpeed v3;
          v5 = applySteering delta v4;
          c5 = moveCar delta (carGroundLevel (game w)) v5 c3;
          c6 = tiltCar now v5 c5
      in w\<lparr>vehicle := v5, car := Some c6\<rparr>)"

definition updateVehiclePhysics :: "host \<Rightarrow> real \<Rightarrow> real \<Rightarrow> world \<Rightarrow> world" where
  "updateVehiclePhysics h now delta w =
     (case car w of
        None \<Rightarrow> w
      | Some c \<Rightarrow>
          if \<not> isPlaying (game w) \<and> \<not> freeRoam (game w) then w
          else
            let w1 = physicsBlocks now delta w c;
                w2 = (if \<not> freeRoam (game w1) then checkCollisions h w1 else w1)
            in updateCarCamera h delta w2)"

text \<open>
  Frames: before each call of \<^verbatim>\<open>updateVehiclePhysics\<close> the key and touch handlers may have
  set the five control flags to any values.
\<close>

record controlInput =
  in_accelerating :: bool
  in_braking :: bool
  in_steeringLeft :: bool
  in_steeringRight :: bool
  in_handbrake :: bool

record frame =
  frame_input :: controlInput
  frame_now :: real
  frame_delta :: real

definition setControls :: "controlInput \<Rightarrow> world \<Rightarrow> world" where
  "setControls i w =
     w\<lparr>vehicle := (vehicle w)
          \<lparr>accelerating := in_accelerating i, braking := in_braking i,
           steeringLeft := in_steeringLeft i, steeringRight := in_steeringRight i,
           handbrake := in_handbrake i\<rparr>\<rparr>"

fun run :: "host \<Rightarrow> frame list \<Rightarrow> world \<Rightarrow> world" where
  "run h [] w = w"
| "run h (f # fs) w =
     run h fs (updateVehiclePhysics h (frame_now f) (frame_delta f) (setControls (frame_input f) w))"

section \<open>The race as game.js sets it up\<close>

text \<open>The initial \<^verbatim>\<open>vehicleState\<close> of the race, with the heading \<^verbatim>\<open>Math.PI\<close> that \<^verbatim>\<open>resetCar\<close> sets.\<close>

definition raceVehicle :: vehicleState where
  "raceVehicle =
     \<lparr>rotation = pi, velocity = 0, steerAngle = 0,
      driftAngle = 0, driftVelocity = 0, isDrifting = False, driftFactor = 0,
      maxSpeed = 25, acceleration = 15, deceleration = 12, brakeForce = 18,
      steerSpeed = 0.8, maxSteerAngle = 0.15, friction = 5,
      driftFriction = 0.95, driftMultiplier = 2.5,
      cameraDistance = 8, cameraHeight = 4, cameraLookAhead = 2, cameraSmooth = 8,
      accelerating = False, braking = False, steeringLeft = False, steeringRight = False,
      handbrake = False\<rparr>"

text \<open>The track segments of \<^verbatim>\<open>createRaceTrack\<close>.\<close>

definition raceTrack :: "segment list" where
  "raceTrack =
     [\<lparr>seg_start = 0, seg_end = - 50, xOffset = 0, width = 35\<rparr>,
      \<lparr>seg_start = - 50, seg_end = - 80, xOffset = 10, width = 35\<rparr>,
      \<lparr>seg_start = - 80, seg_end = - 120, xOffset = 20, width = 35\<rparr>,
      \<lparr>seg_start = - 120, seg_end = - 160, xOffset = 20, width = 35\<rparr>,
      \<lparr>seg_start = - 160, seg_end = - 190, xOffset = 0, width = 35\<rparr>,
      \<lparr>seg_start = - 190, seg_end = - 230, xOffset = - 20, width = 35\<rparr>,
      \<lparr>seg_start = - 230, seg_end = - 260, xOffset = - 20, width = 35\<rparr>,
      \<lparr>seg_start = - 260, seg_end = - 280, xOffset = - 10, width = 35\<rparr>,
      \<lparr>seg_start = - 280, seg_end = - 320, xOffset = 0, width = 35\<rparr>]"

text \<open>A tree of \<^verbatim>\<open>createObstacles\<close> at \<^verbatim>\<open>{ x, z }\<close> stands on the ground.\<close>

definition tree :: "real \<Rightarrow> real \<Rightarrow> vec3" where
  "tree px pz = \<lparr>vec_x = px, vec_y = 0, vec_z = pz\<rparr>"

definition obstaclePositions :: "vec3 list" where
  "obstaclePositions =
     [tree (- 7) (- 20), tree 5 (- 30), tree (- 2) (- 45),
      tree 15 (- 70), tree 25 (- 80), tree 20 (- 85),
      tree 15 (- 110), tree 20 (- 130), tree 10 (- 120),
      tree (- 5) (- 170), tree (- 15) (- 180), tree 0 (- 190),
      tree (- 25) (- 210), tree (- 20) (- 230), tree (- 12) (- 245),
      tree (- 8) (- 260), tree 5 (- 270), tree 0 (- 280)]"

text \<open>
  The \<^verbatim>\<open>gameState\<close> while a race runs (after \<^verbatim>\<open>startRace\<close>), for a car model whose ground
  level came out as 0.1.
\<close>

definition raceGame :: gameState where
  "raceGame =
     \<lparr>isPlaying = True, isCountingDown = False, countdown = 0, raceTime = 0,
      bestTime = None, hasWon = False, hasLost = False, freeRoam = False,
      startPosition = \<lparr>vec_x = 0, vec_y = 0, vec_z = 0\<rparr>,
      finishLineZ = - 300, carGroundLevel = 0.1, trackSegments = raceTrack\<rparr>"

text \<open>
  One host, to evaluate the model on concrete inputs. The car's meshes fill a box two units
  wide, one and a half high and four long around the car's position; the direction of a
  camera is the unit vector from where it was turned to its target; \<open>toFixed2\<close> rounds to hundredths (a tie goes up) and
  writes the decimal digits; \<open>parseFloat\<close> reads the strings of digits with one point that
  \<open>toFixed2\<close> writes for times, and is NaN on every other string.
\<close>

definition sampleBounds :: "object3d \<Rightarrow> box3" where
  "sampleBounds c =
     (let p = car_position c
      in \<lparr>box_min = \<lparr>vec_x = vec_x p - 1, vec_y = vec_y p - 0.1, vec_z = vec_z p - 2\<rparr>,
          box_max = \<lparr>vec_x = vec_x p + 1, vec_y = vec_y p + 1.4, vec_z = vec_z p + 2\<rparr>\<rparr>)"

definition sampleDirection :: "camera \<Rightarrow> vec3" where
  "sampleDirection cam =
     (let d = vsub (cam_target cam) (cam_eye cam);
          n = sqrt (vec_x d * vec_x d + vec_y d * vec_y d + vec_z d * vec_z d)
      in multiplyScalar d (1 / n))"

definition digitChar :: "nat \<Rightarrow> char" where
  "digitChar d = ''0123456789'' ! d"

fun decimalDigits :: "nat \<Rightarrow> string" where
  "decimalDigits n =
     (if n < 10 then [digitChar n] else decimalDigits (n div 10) @ [digitChar (n mod 10)])"

definition sampleToFixed2 :: "real \<Rightarrow> string" where
  "sampleToFixed2 t =
     (let n = nat \<lfloor>\<bar>t\<bar> * 100 + 1 / 2\<rfloor>;
          s = decimalDigits (n div 100) @ ''.'' @ [digitChar (n mod 100 div 10), digitChar (n mod 10)]
      in if t < 0 then ''-'' @ s else s)"

fun digitsValue :: "nat \<Rightarrow> string \<Rightarrow> nat option" where
  "digitsValue acc [] = Some acc"
| "digitsValue acc (ch # cs) =
     (if ch \<in> set ''0123456789'' then digitsValue (10 * acc + (of_char ch - 48)) cs else None)"

definition sampleParseFloat :: "string \<Rightarrow> number" where
  "sampleParseFloat s =
     (let ip = takeWhile (\<lambda>ch. ch \<noteq> CHR ''.'') s;
          fp = drop (length ip + 1) s
      in if ip = [] \<or> fp = [] then NaN
         else (case (digitsValue 0 ip, digitsValue 0 fp) of
                 (Some a, Some b) \<Rightarrow> Num (real a + real b / 10 ^ length fp)
               | _ \<Rightarrow> NaN))"

definition sampleHost :: host where
  "sampleHost =
     \<lparr>setFromObject = sampleBounds, getWorldDirection = sampleDirection,
      toFixed2 = sampleToFixed2, parseFloat = sampleParseFloat\<rparr>"

text \<open>The car at the position \<open>(px, 0.1, pz)\<close>, turned as \<^verbatim>\<open>resetCar\<close> turns it.\<close>

definition carAt :: "real \<Rightarrow> real \<Rightarrow> object3d" where
  "carAt px pz =
     \<lparr>car_position = \<lparr>vec_x = px, vec_y = 0.1, vec_z = pz\<rparr>,
      car_rotation = \<lparr>vec_x = 0, vec_y = - pi / 2, vec_z = 0\<rparr>,
      car_visible = True\<rparr>"

text \<open>
  A running race with the car at \<open>(px, 0.1, pz)\<close>, the vehicle state \<open>v\<close> and nothing stored
  as best time; the camera is behind the start.
\<close>

definition raceWorld :: "vehicleState \<Rightarrow> real \<Rightarrow> real \<Rightarrow> world" where
  "raceWorld v px pz =
     \<lparr>vehicle = v, game = raceGame, car = Some (carAt px pz),
      carBoundingBox = Some (sampleBounds (carAt 0 0)),
      obstacles = obstaclePositions,
      camera = \<lparr>cam_position = \<lparr>vec_x = 0, vec_y = 4.1, vec_z = 8\<rparr>,
                cam_eye = \<lparr>vec_x = 0, vec_y = 4.1, vec_z = 8\<rparr>,
                cam_target = \<lparr>vec_x = 0, vec_y = 1.1, vec_z = - 2\<rparr>\<rparr>,
      localStorage = None,
      document = \<lparr>messageHTML = [], messageShown = False, timerShown = True,
                  recordHTML = None, pulseAnimation = False\<rparr>,
      explosions = []\<rparr>"

text \<open>
  The invariant of the data model: the velocity lies between the reverse limit and
  \<^verbatim>\<open>maxSpeed\<close>, the drift factor between 0 and 1.
\<close>

definition withinLimits :: "vehicleState \<Rightarrow> bool" where
  "withinLimits v \<longleftrightarrow>
     - maxSpeed v * 0.3 \<le> velocity v \<and> velocity v \<le> maxSpeed v
     \<and> 0 \<le> driftFactor v \<and> driftFactor v \<le> 1"

text \<open>
  A track segment contains the point with the coordinates \<open>carZ\<close>, \<open>carX\<close>: the test of the
  segment loop of \<^verbatim>\<open>checkCollisions\<close>.
\<close>

definition segmentContains :: "real \<Rightarrow> real \<Rightarrow> segment \<Rightarrow> bool" where
  "segmentContains carZ carX s \<longleftrightarrow>
     carZ \<le> seg_start s \<and> carZ \<ge> seg_end s
     \<and> carX \<ge> xOffset s - width s / 2 \<and> carX \<le> xOffset s + width s / 2"

text \<open>A frame of a tenth of a second with the accelerator, the left key and the handbrake held.\<close>

definition acceleratingFrame :: frame where
  "acceleratingFrame =
     \<lparr>frame_input = \<lparr>in_accelerating = True, in_braking = False, in_steeringLeft = True,
                      in_steeringRight = False, in_handbrake = True\<rparr>,
      frame_now = 0, frame_delta = 0.1\<rparr>"

text \<open>The race's vehicle state with the given left and right steering flags.\<close>

definition steeringVehicle :: "bool \<Rightarrow> bool \<Rightarrow> vehicleState" where
  "steeringVehicle l r = raceVehicle\<lparr>steeringLeft := l, steeringRight := r\<rparr>"

text \<open>
  The race at the finish after \<open>t\<close> seconds, with \<open>stored\<close> under \<^verbatim>\<open>'bestTime'\<close> in
  \<^verbatim>\<open>localStorage\<close>.
\<close>

definition finishedWorld :: "real \<Rightarrow> string option \<Rightarrow> world" where
  "finishedWorld t stored =
     (raceWorld raceVehicle 0 (- 301))\<lparr>game := raceGame\<lparr>raceTime := t\<rparr>, localStorage := stored\<rparr>"

text \<open>
  A race under way: the car at \<open>z = - 10\<close> in the middle of the track, lifted to the height 3,
  at the speed 20 with the accelerator held and the given handbrake flag.
\<close>

definition drivingWorld :: "bool \<Rightarrow> world" where
  "drivingWorld hb =
     (raceWorld (raceVehicle\<lparr>velocity := 20, accelerating := True, handbrake := hb\<rparr>) 0 (- 10))
       \<lparr>car := Some ((carAt 0 (- 10))\<lparr>car_position := \<lparr>vec_x = 0, vec_y = 3, vec_z = - 10\<rparr>\<rparr>)\<rparr>"

declare decimalDigits.simps [simp del]

section \<open>Properties of the model\<close>

subsection \<open>What gameOver, checkCollisions and updateCarCamera leave alone\<close>

lemma gameOver_vehicle:
  "vehicle (gameOver h won r w) = (vehicle w)\<lparr>velocity := 0, accelerating := False, braking := False\<rparr>"
  by (simp add: gameOver_def wonBranch_def Let_def)

lemma gameOver_game_flags:
  "isPlaying (game (gameOver h won r w)) = False"
  "hasWon (game (gameOver h won r w)) = won"
  "hasLost (game (gameOver h won r w)) = (\<not> won)"
  "freeRoam (game (gameOver h won r w)) = freeRoam (game w)"
  "carGroundLevel (game (gameOver h won r w)) = carGroundLevel (game w)"
  by (simp_all add: gameOver_def wonBranch_def Let_def)

lemma gameOver_car: "car (gameOver h won r w) = car w"
  by (simp add: gameOver_def wonBranch_def Let_def)

lemma gameOver_lost_message:
  "messageHTML (document (gameOver h False r w)) = [Lost (orElse r ''YOU CRASHED!'')]"
  by (simp add: gameOver_def Let_def)

lemma gameOver_obstacles:
  "gameOver h won r (w\<lparr>obstacles := obs\<rparr>) = (gameOver h won r w)\<lparr>obstacles := obs\<rparr>"
  by (simp add: gameOver_def wonBranch_def Let_def)

lemma updateCarCamera_vehicle: "vehicle (updateCarCamera h d w) = vehicle w"
  by (simp add: updateCarCamera_def Let_def split: option.splits)

lemma updateCarCamera_game: "game (updateCarCamera h d w) = game w"
  by (simp add: updateCarCamera_def Let_def split: option.splits)

lemma updateCarCamera_car: "car (updateCarCamera h d w) = car w"
  by (simp add: updateCarCamera_def Let_def split: option.splits)

subsection \<open>The obstacle scan and the segment scan\<close>

lemma hitsObstacle_iff:
  "hitsObstacle bb obs \<longleftrightarrow> (\<exists>ob \<in> set obs. intersectsBox bb (trunkBox ob))"
  by (induction obs) auto

lemma onTrack_iff:
  "onTrack carZ carX segs \<longleftrightarrow> (\<exists>s \<in> set segs. segmentContains carZ carX s)"
  by (induction segs) (auto simp: segmentContains_def Let_def)

subsection \<open>The branches of checkCollisions\<close>

lemma checkCollisions_crash:
  assumes "car w = Some c" "carBoundingBox w = Some b" "isPlaying (game w)"
    and "hitsObstacle (shrunkCarBox h c) (obstacles w)"
  shows "checkCollisions h w =
           gameOver h False None
             (w\<lparr>carBoundingBox := Some (shrunkCarBox h c),
                explosions := explosions w @ [car_position c],
                car := Some (c\<lparr>car_visible := False\<rparr>)\<rparr>)"
  using assms by (simp add: checkCollisions_def Let_def)

lemma checkCollisions_finish:
  assumes "car w = Some c" "carBoundingBox w = Some b" "isPlaying (game w)"
    and "\<not> hitsObstacle (shrunkCarBox h c) (obstacles w)"
    and "vec_z (car_position c) < finishLineZ (game w)"
  shows "checkCollisions h w = gameOver h True None (w\<lparr>carBoundingBox := Some (shrunkCarBox h c)\<rparr>)"
  using assms by (simp add: checkCollisions_def Let_def)

lemma checkCollisions_bounds:
  assumes "car w = Some c" "carBoundingBox w = Some b" "isPlaying (game w)"
    and "\<not> hitsObstacle (shrunkCarBox h c) (obstacles w)"
    and "\<not> vec_z (car_position c) < finishLineZ (game w)"
  shows "checkCollisions h w =
           (if \<not> onTrack (vec_z (car_position c)) (vec_x (car_position c)) (trackSegments (game w))
               \<and> vec_z (car_position c) < 0
            then gameOver h False (Some ''OUT OF BOUNDS!'') (w\<lparr>carBoundingBox := Some (shrunkCarBox h c)\<rparr>)
            else w\<lparr>carBoundingBox := Some (shrunkCarBox h c)\<rparr>)"
  using assms by (simp add: checkCollisions_def Let_def)

lemma checkCollisions_vehicle:
  "vehicle (checkCollisions h w) =
     (if isPlaying (game (checkCollisions h w)) = isPlaying (game w) then vehicle w
      else (vehicle w)\<lparr>velocity := 0, accelerating := False, braking := False\<rparr>)"
  by (simp add: checkCollisions_def gameOver_vehicle gameOver_game_flags Let_def split: option.splits)

lemma checkCollisions_keeps:
  "freeRoam (game (checkCollisions h w)) = freeRoam (game w)"
  "carGroundLevel (game (checkCollisions h w)) = carGroundLevel (game w)"
  "map_option car_position (car (checkCollisions h w)) = map_option car_position (car w)"
  by (simp_all add: checkCollisions_def gameOver_game_flags gameOver_car Let_def split: option.splits)

subsection \<open>The blocks of the physics step\<close>

lemma physicsBlocks_vehicle:
  "vehicle (physicsBlocks now d w c) =
     applySteering d (limitSpeed (fst (driftSystem d
       (accelerationAndBraking d (steering d (vehicle w))) c)))"
  by (simp add: physicsBlocks_def Let_def split: prod.splits)

lemma physicsBlocks_game: "game (physicsBlocks now d w c) = game w"
  by (simp add: physicsBlocks_def Let_def split: prod.splits)

lemma physicsBlocks_car_height:
  "\<exists>c'. car (physicsBlocks now d w c) = Some c'
        \<and> vec_y (car_position c') = carGroundLevel (game w)"
  by (simp add: physicsBlocks_def moveCar_def tiltCar_def Let_def split: prod.splits)

lemma updateVehiclePhysics_idle:
  assumes "car w = None \<or> (\<not> isPlaying (game w) \<and> \<not> freeRoam (game w))"
  shows "updateVehiclePhysics h now d w = w"
  using assms by (auto simp: updateVehiclePhysics_def split: option.splits)

lemma updateVehiclePhysics_running:
  assumes "car w = Some c" "isPlaying (game w) \<or> freeRoam (game w)"
  shows "updateVehiclePhysics h now d w =
           updateCarCamera h d
             (if \<not> freeRoam (game w) then checkCollisions h (physicsBlocks now d w c)
              else physicsBlocks now d w c)"
  using assms by (auto simp: updateVehiclePhysics_def physicsBlocks_game Let_def)

lemma steering_fields:
  "velocity (steering d v) = velocity v" "driftFactor (steering d v) = driftFactor v"
  "maxSpeed (steering d v) = maxSpeed v"
  by (simp_all add: steering_def)

lemma accelerationAndBraking_fields:
  "driftFactor (accelerationAndBraking d v) = driftFactor v"
  "maxSpeed (accelerationAndBraking d v) = maxSpeed v"
  by (simp_all add: accelerationAndBraking_def Let_def)

lemma driftSystem_maxSpeed: "maxSpeed (fst (driftSystem d v c)) = maxSpeed v"
  by (simp add: driftSystem_def Let_def)

lemma driftSystem_driftFactor:
  assumes "0 \<le> d" "0 \<le> driftFactor v" "driftFactor v \<le> 1"
  shows "0 \<le> driftFactor (fst (driftSystem d v c)) \<and> driftFactor (fst (driftSystem d v c)) \<le> 1"
  using assms by (auto simp: driftSystem_def Let_def max_def min_def)

lemma limitSpeed_fields:
  "driftFactor (limitSpeed v) = driftFactor v" "maxSpeed (limitSpeed v) = maxSpeed v"
  by (simp_all add: limitSpeed_def)

lemma limitSpeed_velocity:
  assumes "0 \<le> maxSpeed v"
  shows "- maxSpeed v * 0.3 \<le> velocity (limitSpeed v) \<and> velocity (limitSpeed v) \<le> maxSpeed v"
  using assms by (simp add: limitSpeed_def clamp_def)

lemma applySteering_fields:
  "velocity (applySteering d v) = velocity v" "driftFactor (applySteering d v) = driftFactor v"
  "maxSpeed (applySteering d v) = maxSpeed v"
  by (simp_all add: applySteering_def Let_def)

lemma physicsBlocks_withinLimits:
  assumes "withinLimits (vehicle w)" "0 \<le> d"
  shows "withinLimits (vehicle (physicsBlocks now d w c))"
proof -
  let ?v2 = "accelerationAndBraking d (steering d (vehicle w))"
  let ?v3 = "fst (driftSystem d ?v2 c)"
  have m: "maxSpeed ?v3 = maxSpeed (vehicle w)"
    by (simp add: driftSystem_maxSpeed accelerationAndBraking_fields steering_fields)
  have f: "0 \<le> driftFactor ?v3 \<and> driftFactor ?v3 \<le> 1"
    using assms
    by (intro driftSystem_driftFactor)
       (simp_all add: accelerationAndBraking_fields steering_fields withinLimits_def)
  have "0 \<le> maxSpeed ?v3" using assms m by (simp add: withinLimits_def)
  from limitSpeed_velocity [OF this] m f show ?thesis
    by (simp add: physicsBlocks_vehicle withinLimits_def applySteering_fields limitSpeed_fields)
qed

lemma stopped_withinLimits:
  "withinLimits v \<Longrightarrow> withinLimits (v\<lparr>velocity := 0, accelerating := False, braking := False\<rparr>)"
  by (simp add: withinLimits_def)

lemma checkCollisions_withinLimits:
  "withinLimits (vehicle w) \<Longrightarrow> withinLimits (vehicle (checkCollisions h w))"
  by (simp add: checkCollisions_vehicle stopped_withinLimits)

lemma step_withinLimits:
  assumes "withinLimits (vehicle w)" "0 \<le> d"
  shows "withinLimits (vehicle (updateVehiclePhysics h now d w))"
proof (cases "car w")
  case None
  then show ?thesis using assms by (simp add: updateVehiclePhysics_idle)
next
  case (Some c)
  show ?thesis
  proof (cases "isPlaying (game w) \<or> freeRoam (game w)")
    case False
    then show ?thesis using assms by (simp add: updateVehiclePhysics_idle)
  next
    case True
    have "withinLimits (vehicle (physicsBlocks now d w c))"
      using assms by (rule physicsBlocks_withinLimits)
    then show ?thesis
      by (simp add: updateVehiclePhysics_running [OF Some True] updateCarCamera_vehicle
          checkCollisions_withinLimits)
  qed
qed

lemma setControls_withinLimits:
  "withinLimits (vehicle (setControls i w)) = withinLimits (vehicle w)"
  by (simp add: setControls_def withinLimits_def)

lemma run_withinLimits:
  assumes "withinLimits (vehicle w)" "\<forall>f \<in> set frames. 0 \<le> frame_delta f"
  shows "withinLimits (vehicle (run h frames w))"
  using assms
proof (induction frames arbitrary: w)
  case Nil
  then show ?case by simp
next
  case (Cons f fs)
  have "withinLimits (vehicle (updateVehiclePhysics h (frame_now f) (frame_delta f) (setControls (frame_input f) w)))"
    using Cons.prems by (intro step_withinLimits) (simp_all add: setControls_withinLimits)
  with Cons show ?case by simp
qed

text \<open>
  C1. For every vehicle state whose velocity lies in \<open>[-maxSpeed * 0.3, maxSpeed]\<close> and whose
  drift factor lies in \<open>[0, 1]\<close>, every \<open>delta\<close> in \<open>[0, 0.1]\<close> and every setting of the five
  control flags, one call of \<^verbatim>\<open>updateVehiclePhysics\<close> leaves both within these bounds; so do
  any number of calls, whatever the flags are set to before each call.
\<close>

theorem velocity_and_driftFactor_stay_within_limits:
  assumes "withinLimits (vehicle w)"
    and "0 \<le> delta \<and> delta \<le> 0.1"
    and "\<forall>f \<in> set frames. 0 \<le> frame_delta f \<and> frame_delta f \<le> 0.1"
  shows "withinLimits (vehicle (updateVehiclePhysics h now delta w))
         \<and> withinLimits (vehicle (run h frames w))"
  using assms by (simp add: step_withinLimits run_withinLimits)

theorem velocity_and_driftFactor_stay_within_limits_witness:
  "withinLimits (vehicle (raceWorld raceVehicle 0 0))
   \<and> (0::real) \<le> 0.1 \<and> (0.1::real) \<le> 0.1
   \<and> frame_delta acceleratingFrame = 0.1
   \<and> withinLimits (vehicle (updateVehiclePhysics sampleHost 0 0.1 (raceWorld raceVehicle 0 0)))
   \<and> withinLimits (vehicle (run sampleHost [acceleratingFrame, acceleratingFrame] (raceWorld raceVehicle 0 0)))"
proof -
  have a: "withinLimits (vehicle (raceWorld raceVehicle 0 0))"
    by (simp add: withinLimits_def raceWorld_def raceVehicle_def)
  have b: "(0::real) \<le> 0.1 \<and> (0.1::real) \<le> 0.1" by simp
  have c: "\<forall>f \<in> set [acceleratingFrame, acceleratingFrame]. 0 \<le> frame_delta f \<and> frame_delta f \<le> 0.1"
    by (simp add: acceleratingFrame_def)
  have d: "frame_delta acceleratingFrame = 0.1" by (simp add: acceleratingFrame_def)
  show ?thesis
    using a b d velocity_and_driftFactor_stay_within_limits [OF a b c, of sampleHost 0] by blast
qed

lemma gameOver_won_message:
  "messageHTML (document (gameOver h True r w)) =
     YouWon (toFixed2 h (raceTime (game w)))
     # (if isNewRecord h (raceTime (game w)) (localStorage w)
        then [NewRecord (orElse (localStorage w) ''N/A'')] else [])"
  by (simp add: gameOver_def wonBranch_def Let_def)

text \<open>
  C2. When the car's \<open>z\<close> coordinate has passed the finish line (\<open>z < finishLineZ\<close>) and its
  shrunk box intersects no obstacle, a running check ends the race as won
  (\<^verbatim>\<open>gameOver(true)\<close>) and never as out of bounds, whatever the track segments are: the
  finish test comes before the scan of the segments.
\<close>

theorem finish_line_is_tested_before_track_bounds:
  assumes "car w = Some c" and "carBoundingBox w = Some b" and "isPlaying (game w)"
    and "vec_z (car_position c) < finishLineZ (game w)"
    and "\<forall>ob \<in> set (obstacles w). \<not> intersectsBox (shrunkCarBox h c) (trunkBox ob)"
  shows "checkCollisions h w = gameOver h True None (w\<lparr>carBoundingBox := Some (shrunkCarBox h c)\<rparr>)
         \<and> hasWon (game (checkCollisions h w)) \<and> \<not> hasLost (game (checkCollisions h w))
         \<and> (\<forall>m. Lost m \<notin> set (messageHTML (document (checkCollisions h w))))"
proof -
  have "\<not> hitsObstacle (shrunkCarBox h c) (obstacles w)"
    using assms(5) by (simp add: hitsObstacle_iff)
  then have "checkCollisions h w = gameOver h True None (w\<lparr>carBoundingBox := Some (shrunkCarBox h c)\<rparr>)"
    using assms by (intro checkCollisions_finish) simp_all
  then show ?thesis
    by (simp add: gameOver_game_flags gameOver_won_message)
qed

lemma sample_no_tree_hit:
  "\<forall>ob \<in> set obstaclePositions. \<not> intersectsBox (shrunkCarBox sampleHost (carAt 0 (- 330))) (trunkBox ob)"
  by (simp add: obstaclePositions_def tree_def intersectsBox_def trunkBox_def shrunkCarBox_def
      sampleHost_def sampleBounds_def carAt_def setFromCenterAndSize_def getCenter_def getSize_def
      isEmpty_def multiplyScalar_def vadd_def vsub_def Let_def)

theorem finish_line_is_tested_before_track_bounds_witness:
  "car (raceWorld raceVehicle 0 (- 330)) = Some (carAt 0 (- 330))
   \<and> carBoundingBox (raceWorld raceVehicle 0 (- 330)) = Some (sampleBounds (carAt 0 0))
   \<and> isPlaying (game (raceWorld raceVehicle 0 (- 330)))
   \<and> vec_z (car_position (carAt 0 (- 330))) < finishLineZ (game (raceWorld raceVehicle 0 (- 330)))
   \<and> \<not> onTrack (- 330) 0 (trackSegments (game (raceWorld raceVehicle 0 (- 330))))
   \<and> hasWon (game (checkCollisions sampleHost (raceWorld raceVehicle 0 (- 330))))
   \<and> \<not> hasLost (game (checkCollisions sampleHost (raceWorld raceVehicle 0 (- 330))))
   \<and> Lost ''OUT OF BOUNDS!'' \<notin> set (messageHTML (document (checkCollisions sampleHost (raceWorld raceVehicle 0 (- 330)))))"
proof -
  let ?w = "raceWorld raceVehicle 0 (- 330)"
  have a: "car ?w = Some (carAt 0 (- 330))" by (simp add: raceWorld_def)
  have b: "carBoundingBox ?w = Some (sampleBounds (carAt 0 0))" by (simp add: raceWorld_def)
  have c: "isPlaying (game ?w)" by (simp add: raceWorld_def raceGame_def)
  have d: "vec_z (car_position (carAt 0 (- 330))) < finishLineZ (game ?w)"
    by (simp add: raceWorld_def raceGame_def carAt_def)
  have e: "\<forall>ob \<in> set (obstacles ?w).
             \<not> intersectsBox (shrunkCarBox sampleHost (carAt 0 (- 330))) (trunkBox ob)"
    using sample_no_tree_hit by (simp add: raceWorld_def)
  have f: "\<not> onTrack (- 330) 0 (trackSegments (game ?w))"
    by (simp add: raceWorld_def raceGame_def raceTrack_def)
  show ?thesis
    using a b c d f finish_line_is_tested_before_track_bounds [OF a b c d e] by blast
qed

lemmas geometry_defs = intersectsBox_def trunkBox_def shrunkCarBox_def
  setFromCenterAndSize_def getCenter_def getSize_def isEmpty_def multiplyScalar_def
  vadd_def vsub_def

lemmas sample_defs = sampleHost_def sampleBounds_def carAt_def obstaclePositions_def tree_def

text \<open>
  C9. When the car's shrunk box intersects the box of some obstacle and the car's \<open>z\<close>
  coordinate has also passed the finish line, a running check ends the race as lost with
  the crash message (\<^verbatim>\<open>gameOver(false)\<close>), not as won: the obstacle loop comes first and
  returns at the first intersection.
\<close>

theorem crash_wins_over_finish:
  assumes "car w = Some c" and "carBoundingBox w = Some b" and "isPlaying (game w)"
    and "\<exists>ob \<in> set (obstacles w). intersectsBox (shrunkCarBox h c) (trunkBox ob)"
    and "vec_z (car_position c) < finishLineZ (game w)"
  shows "checkCollisions h w =
           gameOver h False None
             (w\<lparr>carBoundingBox := Some (shrunkCarBox h c),
                explosions := explosions w @ [car_position c],
                car := Some (c\<lparr>car_visible := False\<rparr>)\<rparr>)
         \<and> hasLost (game (checkCollisions h w)) \<and> \<not> hasWon (game (checkCollisions h w))
         \<and> messageHTML (document (checkCollisions h w)) = [Lost ''YOU CRASHED!'']"
proof -
  have "hitsObstacle (shrunkCarBox h c) (obstacles w)"
    using assms(4) by (simp add: hitsObstacle_iff)
  with assms(1-3) have "checkCollisions h w =
           gameOver h False None
             (w\<lparr>carBoundingBox := Some (shrunkCarBox h c),
                explosions := explosions w @ [car_position c],
                car := Some (c\<lparr>car_visible := False\<rparr>)\<rparr>)"
    by (rule checkCollisions_crash)
  then show ?thesis
    by (simp add: gameOver_game_flags gameOver_lost_message orElse_def)
qed

theorem crash_wins_over_finish_witness:
  "car ((raceWorld raceVehicle 0 (- 305))\<lparr>obstacles := [tree 0 (- 305)]\<rparr>) = Some (carAt 0 (- 305))
   \<and> isPlaying (game ((raceWorld raceVehicle 0 (- 305))\<lparr>obstacles := [tree 0 (- 305)]\<rparr>))
   \<and> intersectsBox (shrunkCarBox sampleHost (carAt 0 (- 305))) (trunkBox (tree 0 (- 305)))
   \<and> vec_z (car_position (carAt 0 (- 305)))
       < finishLineZ (game ((raceWorld raceVehicle 0 (- 305))\<lparr>obstacles := [tree 0 (- 305)]\<rparr>))
   \<and> hasLost (game (checkCollisions sampleHost ((raceWorld raceVehicle 0 (- 305))\<lparr>obstacles := [tree 0 (- 305)]\<rparr>)))
   \<and> \<not> hasWon (game (checkCollisions sampleHost ((raceWorld raceVehicle 0 (- 305))\<lparr>obstacles := [tree 0 (- 305)]\<rparr>)))
   \<and> messageHTML (document (checkCollisions sampleHost ((raceWorld raceVehicle 0 (- 305))\<lparr>obstacles := [tree 0 (- 305)]\<rparr>)))
       = [Lost ''YOU CRASHED!'']"
proof -
  let ?w = "(raceWorld raceVehicle 0 (- 305))\<lparr>obstacles := [tree 0 (- 305)]\<rparr>"
  have a: "car ?w = Some (carAt 0 (- 305))" by (simp add: raceWorld_def)
  have b: "carBoundingBox ?w = Some (sampleBounds (carAt 0 0))" by (simp add: raceWorld_def)
  have c: "isPlaying (game ?w)" by (simp add: raceWorld_def raceGame_def)
  have i: "intersectsBox (shrunkCarBox sampleHost (carAt 0 (- 305))) (trunkBox (tree 0 (- 305)))"
    by (simp add: geometry_defs sample_defs Let_def)
  then have d: "\<exists>ob \<in> set (obstacles ?w).
                 intersectsBox (shrunkCarBox sampleHost (carAt 0 (- 305))) (trunkBox ob)"
    by simp
  have e: "vec_z (car_position (carAt 0 (- 305))) < finishLineZ (game ?w)"
    by (simp add: raceWorld_def raceGame_def carAt_def)
  show ?thesis
    using a c i e crash_wins_over_finish [OF a b c d e] by blast
qed

text \<open>
  C5. When the car's shrunk box intersects no obstacle and the car has not passed the finish
  line, a running check ends the race with \<^verbatim>\<open>"OUT OF BOUNDS!"\<close> if and only if no track segment
  contains the car (its \<open>z\<close> in the segment's range and its \<open>x\<close> in the segment's lateral
  window) and the car's \<open>z\<close> is below 0; otherwise the race goes on. In particular it goes on
  for every car with \<open>z \<ge> 0\<close>, wherever it is sideways.
\<close>

theorem out_of_bounds_iff_off_track_after_start:
  assumes "car w = Some c" and "carBoundingBox w = Some b" and "isPlaying (game w)"
    and "\<forall>ob \<in> set (obstacles w). \<not> intersectsBox (shrunkCarBox h c) (trunkBox ob)"
    and "\<not> vec_z (car_position c) < finishLineZ (game w)"
  shows "let carZ = vec_z (car_position c);
             carX = vec_x (car_position c);
             offTrack = (\<forall>s \<in> set (trackSegments (game w)). \<not> segmentContains carZ carX s);
             w1 = w\<lparr>carBoundingBox := Some (shrunkCarBox h c)\<rparr>
         in (checkCollisions h w = gameOver h False (Some ''OUT OF BOUNDS!'') w1
               \<longleftrightarrow> offTrack \<and> carZ < 0)
            \<and> (checkCollisions h w = w1 \<longleftrightarrow> \<not> (offTrack \<and> carZ < 0))
            \<and> (offTrack \<and> carZ < 0 \<longrightarrow>
                  hasLost (game (checkCollisions h w))
                  \<and> messageHTML (document (checkCollisions h w)) = [Lost ''OUT OF BOUNDS!''])
            \<and> (0 \<le> carZ \<longrightarrow> checkCollisions h w = w1 \<and> isPlaying (game (checkCollisions h w)))"
proof -
  let ?w1 = "w\<lparr>carBoundingBox := Some (shrunkCarBox h c)\<rparr>"
  let ?out = "gameOver h False (Some ''OUT OF BOUNDS!'') ?w1"
  have nohit: "\<not> hitsObstacle (shrunkCarBox h c) (obstacles w)"
    using assms(4) by (simp add: hitsObstacle_iff)
  note eq = checkCollisions_bounds [OF assms(1-3) nohit assms(5)]
  have "isPlaying (game ?w1)" using assms(3) by simp
  moreover have "\<not> isPlaying (game ?out)" by (simp add: gameOver_game_flags)
  ultimately have ne: "?out \<noteq> ?w1" by metis
  have msg: "hasLost (game ?out) \<and> messageHTML (document ?out) = [Lost ''OUT OF BOUNDS!'']"
    by (simp add: gameOver_game_flags gameOver_lost_message orElse_def)
  show ?thesis
    using ne msg assms(3) unfolding Let_def eq onTrack_iff by auto
qed

theorem out_of_bounds_iff_off_track_after_start_witness:
  "\<not> hitsObstacle (shrunkCarBox sampleHost (carAt 30 (- 10))) (obstacles (raceWorld raceVehicle 30 (- 10)))
   \<and> \<not> vec_z (car_position (carAt 30 (- 10))) < finishLineZ (game (raceWorld raceVehicle 30 (- 10)))
   \<and> \<not> onTrack (- 10) 30 (trackSegments (game (raceWorld raceVehicle 30 (- 10))))
   \<and> hasLost (game (checkCollisions sampleHost (raceWorld raceVehicle 30 (- 10))))
   \<and> messageHTML (document (checkCollisions sampleHost (raceWorld raceVehicle 30 (- 10))))
       = [Lost ''OUT OF BOUNDS!'']
   \<and> \<not> hitsObstacle (shrunkCarBox sampleHost (carAt 30 0)) (obstacles (raceWorld raceVehicle 30 0))
   \<and> \<not> vec_z (car_position (carAt 30 0)) < finishLineZ (game (raceWorld raceVehicle 30 0))
   \<and> \<not> onTrack 0 30 (trackSegments (game (raceWorld raceVehicle 30 0)))
   \<and> isPlaying (game (checkCollisions sampleHost (raceWorld raceVehicle 30 0)))"
proof -
  let ?w = "raceWorld raceVehicle 30 (- 10)"
  let ?u = "raceWorld raceVehicle 30 0"
  have a: "car ?w = Some (carAt 30 (- 10))" by (simp add: raceWorld_def)
  have b: "carBoundingBox ?w = Some (sampleBounds (carAt 0 0))" by (simp add: raceWorld_def)
  have c: "isPlaying (game ?w)" by (simp add: raceWorld_def raceGame_def)
  have d: "\<forall>ob \<in> set (obstacles ?w).
             \<not> intersectsBox (shrunkCarBox sampleHost (carAt 30 (- 10))) (trunkBox ob)"
    by (simp add: raceWorld_def geometry_defs sample_defs Let_def)
  have e: "\<not> vec_z (car_position (carAt 30 (- 10))) < finishLineZ (game ?w)"
    by (simp add: raceWorld_def raceGame_def carAt_def)
  have f: "\<forall>s \<in> set (trackSegments (game ?w)). \<not> segmentContains (- 10) 30 s"
    by (simp add: raceWorld_def raceGame_def raceTrack_def segmentContains_def)
  have z: "vec_z (car_position (carAt 30 (- 10))) = - 10" "vec_x (car_position (carAt 30 (- 10))) = 30"
    by (simp_all add: carAt_def)
  have a': "car ?u = Some (carAt 30 0)" by (simp add: raceWorld_def)
  have b': "carBoundingBox ?u = Some (sampleBounds (carAt 0 0))" by (simp add: raceWorld_def)
  have c': "isPlaying (game ?u)" by (simp add: raceWorld_def raceGame_def)
  have d': "\<forall>ob \<in> set (obstacles ?u).
             \<not> intersectsBox (shrunkCarBox sampleHost (carAt 30 0)) (trunkBox ob)"
    by (simp add: raceWorld_def geometry_defs sample_defs Let_def)
  have e': "\<not> vec_z (car_position (carAt 30 0)) < finishLineZ (game ?u)"
    by (simp add: raceWorld_def raceGame_def carAt_def)
  have f': "\<forall>s \<in> set (trackSegments (game ?u)). \<not> segmentContains 0 30 s"
    by (simp add: raceWorld_def raceGame_def raceTrack_def segmentContains_def)
  have z': "vec_z (car_position (carAt 30 0)) = 0" "vec_x (car_position (carAt 30 0)) = 30"
    by (simp_all add: carAt_def)
  have lost: "hasLost (game (checkCollisions sampleHost ?w))
      \<and> messageHTML (document (checkCollisions sampleHost ?w)) = [Lost ''OUT OF BOUNDS!'']"
  proof -
    have "(- 10::real) < 0" by simp
    then show ?thesis
      using out_of_bounds_iff_off_track_after_start [OF a b c d e] f
      unfolding Let_def z by blast
  qed
  have on: "isPlaying (game (checkCollisions sampleHost ?u))"
  proof -
    have "(0::real) \<le> 0" by simp
    then show ?thesis
      using out_of_bounds_iff_off_track_after_start [OF a' b' c' d' e']
      unfolding Let_def z' by blast
  qed
  show ?thesis
    using d e f lost d' e' f' on unfolding hitsObstacle_iff onTrack_iff by blast
qed

lemma gameOver_moved:
  assumes "w' = w\<lparr>obstacles := obs\<rparr>"
  shows "gameOver h won r w' = (gameOver h won r w)\<lparr>obstacles := obs\<rparr>"
  unfolding assms by (rule gameOver_obstacles)

lemma checkCollisions_obstacles:
  assumes hit: "\<And>bb. hitsObstacle bb obs = hitsObstacle bb (obstacles w)"
  shows "checkCollisions h (w\<lparr>obstacles := obs\<rparr>) = (checkCollisions h w)\<lparr>obstacles := obs\<rparr>"
proof (cases "car w")
  case None
  then show ?thesis by (simp add: checkCollisions_def)
next
  case c: (Some c)
  show ?thesis
  proof (cases "carBoundingBox w")
    case None
    then show ?thesis using c by (simp add: checkCollisions_def)
  next
    case (Some b)
    let ?bb = "shrunkCarBox h c"
    have 1: "gameOver h won r (w\<lparr>obstacles := obs, carBoundingBox := Some ?bb\<rparr>)
             = (gameOver h won r (w\<lparr>carBoundingBox := Some ?bb\<rparr>))\<lparr>obstacles := obs\<rparr>" for won r
      by (rule gameOver_moved) simp
    have 2: "gameOver h won r (w\<lparr>obstacles := obs, carBoundingBox := Some ?bb,
                 explosions := explosions w @ [car_position c],
                 car := Some (c\<lparr>car_visible := False\<rparr>)\<rparr>)
             = (gameOver h won r (w\<lparr>carBoundingBox := Some ?bb,
                 explosions := explosions w @ [car_position c],
                 car := Some (c\<lparr>car_visible := False\<rparr>)\<rparr>))\<lparr>obstacles := obs\<rparr>" for won r
      by (rule gameOver_moved) simp
    show ?thesis
      using c Some by (simp add: checkCollisions_def hit 1 2 Let_def)
  qed
qed

text \<open>
  C7. For every state and every permutation of the obstacle list, the collision check has
  the same result: whether the car's shrunk box intersects the box of some obstacle does
  not depend on the order of \<^verbatim>\<open>obstacles\<close>.
\<close>

theorem obstacle_order_is_irrelevant:
  assumes "mset obs = mset (obstacles w)"
  shows "checkCollisions h (w\<lparr>obstacles := obs\<rparr>) = (checkCollisions h w)\<lparr>obstacles := obs\<rparr>
         \<and> hitsObstacle bb obs = hitsObstacle bb (obstacles w)"
proof -
  have "set obs = set (obstacles w)" using assms by (rule mset_eq_setD)
  then have hit: "hitsObstacle bb' obs = hitsObstacle bb' (obstacles w)" for bb'
    by (simp add: hitsObstacle_iff)
  then have "checkCollisions h (w\<lparr>obstacles := obs\<rparr>) = (checkCollisions h w)\<lparr>obstacles := obs\<rparr>"
    by (rule checkCollisions_obstacles)
  with hit show ?thesis by simp
qed

theorem obstacle_order_is_irrelevant_witness:
  "mset (rev obstaclePositions) = mset (obstacles (raceWorld raceVehicle 5 (- 30)))
   \<and> checkCollisions sampleHost ((raceWorld raceVehicle 5 (- 30))\<lparr>obstacles := rev obstaclePositions\<rparr>)
       = (checkCollisions sampleHost (raceWorld raceVehicle 5 (- 30)))\<lparr>obstacles := rev obstaclePositions\<rparr>
   \<and> hitsObstacle (shrunkCarBox sampleHost (carAt 5 (- 30))) (rev obstaclePositions)"
proof -
  have a: "mset (rev obstaclePositions) = mset (obstacles (raceWorld raceVehicle 5 (- 30)))"
    by (simp add: raceWorld_def)
  have b: "hitsObstacle (shrunkCarBox sampleHost (carAt 5 (- 30))) (obstacles (raceWorld raceVehicle 5 (- 30)))"
    by (simp add: raceWorld_def geometry_defs sample_defs Let_def)
  show ?thesis
    using a b obstacle_order_is_irrelevant [OF a, of sampleHost "shrunkCarBox sampleHost (carAt 5 (- 30))"]
    by blast
qed



subsection \<open>The vehicle state after a step\<close>

lemma blocks_keep_steerAngle:
  "steerAngle (accelerationAndBraking d v) = steerAngle v"
  "steerAngle (fst (driftSystem d v c)) = steerAngle v"
  "steerAngle (limitSpeed v) = steerAngle v"
  "steerAngle (applySteering d v) = steerAngle v"
  by (simp_all add: accelerationAndBraking_def driftSystem_def limitSpeed_def applySteering_def Let_def)

lemma physicsBlocks_steerAngle:
  "steerAngle (vehicle (physicsBlocks now d w c)) = steerAngle (steering d (vehicle w))"
  by (simp add: physicsBlocks_vehicle blocks_keep_steerAngle)

lemma checkCollisions_steerAngle:
  "steerAngle (vehicle (checkCollisions h w)) = steerAngle (vehicle w)"
  by (simp add: checkCollisions_vehicle)

lemma updateVehiclePhysics_steerAngle:
  assumes "car w = Some c" "isPlaying (game w) \<or> freeRoam (game w)"
  shows "steerAngle (vehicle (updateVehiclePhysics h now d w)) = steerAngle (steering d (vehicle w))"
  by (simp add: updateVehiclePhysics_running [OF assms] updateCarCamera_vehicle
      checkCollisions_steerAngle physicsBlocks_steerAngle)

text \<open>
  C3, as the code has it. In the steering update the target steer angle is \<open>maxSteerAngle\<close>
  when only \<open>steeringLeft\<close> is set, \<open>- maxSteerAngle\<close> when only \<open>steeringRight\<close> is set, 0 when
  neither is set, and 0 when both are set: the two contributions are added and cancel. The
  steer angle after the update is the interpolation from the old angle to this target by
  \<open>steerSpeed * delta * 3\<close>, in the block and in a whole step that runs.
\<close>

theorem target_steer_angle_adds_left_and_right:
  "(steeringLeft v \<and> \<not> steeringRight v \<longrightarrow> targetSteerAngle v = maxSteerAngle v)
   \<and> (steeringRight v \<and> \<not> steeringLeft v \<longrightarrow> targetSteerAngle v = - maxSteerAngle v)
   \<and> (\<not> steeringLeft v \<and> \<not> steeringRight v \<longrightarrow> targetSteerAngle v = 0)
   \<and> (steeringLeft v \<and> steeringRight v \<longrightarrow> targetSteerAngle v = 0)
   \<and> steerAngle (steering delta v) = lerp (steerAngle v) (targetSteerAngle v) (steerSpeed v * delta * 3)
   \<and> (car w = Some c \<and> (isPlaying (game w) \<or> freeRoam (game w)) \<longrightarrow>
        steerAngle (vehicle (updateVehiclePhysics h now delta w))
        = lerp (steerAngle (vehicle w)) (targetSteerAngle (vehicle w)) (steerSpeed (vehicle w) * delta * 3))"
proof (intro conjI)
  show "steeringLeft v \<and> \<not> steeringRight v \<longrightarrow> targetSteerAngle v = maxSteerAngle v"
    by (simp add: targetSteerAngle_def)
  show "steeringRight v \<and> \<not> steeringLeft v \<longrightarrow> targetSteerAngle v = - maxSteerAngle v"
    by (simp add: targetSteerAngle_def)
  show "\<not> steeringLeft v \<and> \<not> steeringRight v \<longrightarrow> targetSteerAngle v = 0"
    by (simp add: targetSteerAngle_def)
  show "steeringLeft v \<and> steeringRight v \<longrightarrow> targetSteerAngle v = 0"
    by (simp add: targetSteerAngle_def)
  show "steerAngle (steering delta v) = lerp (steerAngle v) (targetSteerAngle v) (steerSpeed v * delta * 3)"
    by (simp add: steering_def)
  show "car w = Some c \<and> (isPlaying (game w) \<or> freeRoam (game w)) \<longrightarrow>
        steerAngle (vehicle (updateVehiclePhysics h now delta w))
        = lerp (steerAngle (vehicle w)) (targetSteerAngle (vehicle w)) (steerSpeed (vehicle w) * delta * 3)"
  proof
    assume "car w = Some c \<and> (isPlaying (game w) \<or> freeRoam (game w))"
    then have "steerAngle (vehicle (updateVehiclePhysics h now delta w))
               = steerAngle (steering delta (vehicle w))"
      by (intro updateVehiclePhysics_steerAngle) simp_all
    then show "steerAngle (vehicle (updateVehiclePhysics h now delta w))
        = lerp (steerAngle (vehicle w)) (targetSteerAngle (vehicle w)) (steerSpeed (vehicle w) * delta * 3)"
      by (simp add: steering_def)
  qed
qed

theorem target_steer_angle_adds_left_and_right_witness:
  "targetSteerAngle (steeringVehicle True False) = 0.15
   \<and> targetSteerAngle (steeringVehicle False True) = - 0.15
   \<and> targetSteerAngle (steeringVehicle False False) = 0
   \<and> targetSteerAngle (steeringVehicle True True) = 0
   \<and> steerAngle (vehicle (updateVehiclePhysics sampleHost 0 0.1 (raceWorld (steeringVehicle True False) 0 0)))
       = lerp 0 0.15 (0.8 * 0.1 * 3)"
proof -
  have l: "steeringLeft (steeringVehicle True False) \<and> \<not> steeringRight (steeringVehicle True False)"
    and r: "steeringRight (steeringVehicle False True) \<and> \<not> steeringLeft (steeringVehicle False True)"
    and n: "\<not> steeringLeft (steeringVehicle False False) \<and> \<not> steeringRight (steeringVehicle False False)"
    and b: "steeringLeft (steeringVehicle True True) \<and> steeringRight (steeringVehicle True True)"
    and m: "maxSteerAngle (steeringVehicle True False) = 0.15" "maxSteerAngle (steeringVehicle False True) = 0.15"
    by (simp_all add: steeringVehicle_def raceVehicle_def)
  let ?w = "raceWorld (steeringVehicle True False) 0 0"
  have g: "car ?w = Some (carAt 0 0) \<and> (isPlaying (game ?w) \<or> freeRoam (game ?w))"
    by (simp add: raceWorld_def raceGame_def)
  have v: "steerAngle (vehicle ?w) = 0" "steerSpeed (vehicle ?w) = 0.8" "vehicle ?w = steeringVehicle True False"
    by (simp_all add: raceWorld_def steeringVehicle_def raceVehicle_def)
  have 1: "targetSteerAngle (steeringVehicle True False) = maxSteerAngle (steeringVehicle True False)"
    using target_steer_angle_adds_left_and_right [of "steeringVehicle True False"] l by blast
  have 2: "targetSteerAngle (steeringVehicle False True) = - maxSteerAngle (steeringVehicle False True)"
    using target_steer_angle_adds_left_and_right [of "steeringVehicle False True"] r by blast
  have 3: "targetSteerAngle (steeringVehicle False False) = 0"
    using target_steer_angle_adds_left_and_right [of "steeringVehicle False False"] n by blast
  have 4: "targetSteerAngle (steeringVehicle True True) = 0"
    using target_steer_angle_adds_left_and_right [of "steeringVehicle True True"] b by blast
  have 5: "steerAngle (vehicle (updateVehiclePhysics sampleHost 0 0.1 ?w))
       = lerp (steerAngle (vehicle ?w)) (targetSteerAngle (vehicle ?w)) (steerSpeed (vehicle ?w) * 0.1 * 3)"
    using target_steer_angle_adds_left_and_right [of "vehicle ?w" "0.1" ?w "carAt 0 0" sampleHost 0] g
    by blast
  show ?thesis unfolding 5 1 2 3 4 m v by (simp add: steeringVehicle_def raceVehicle_def)
qed

text \<open>
  C3, as the claim has it, fails: with both keys held and \<open>maxSteerAngle = 0.15\<close> the target
  is 0, not \<open>maxSteerAngle\<close>.
\<close>

theorem left_does_not_take_precedence:
  "steeringLeft (steeringVehicle True True) \<and> steeringRight (steeringVehicle True True)
   \<and> maxSteerAngle (steeringVehicle True True) = 0.15
   \<and> targetSteerAngle (steeringVehicle True True) = 0
   \<and> targetSteerAngle (steeringVehicle True True) \<noteq> maxSteerAngle (steeringVehicle True True)"
  by (simp add: targetSteerAngle_def steeringVehicle_def raceVehicle_def)

subsection \<open>The best time\<close>

lemma wonBranch_new_record:
  assumes "isNewRecord h (raceTime (game w)) (localStorage w)"
  shows "localStorage (wonBranch h w) = Some (toFixed2 h (raceTime (game w)))"
    and "bestTime (game (wonBranch h w)) = Some (toFixed2 h (raceTime (game w)))"
    and "recordHTML (document (wonBranch h w)) = Some (toFixed2 h (raceTime (game w)))"
  using assms by (simp_all add: wonBranch_def Let_def)

lemma wonBranch_no_record:
  assumes "\<not> isNewRecord h (raceTime (game w)) (localStorage w)"
  shows "localStorage (wonBranch h w) = localStorage w"
    and "bestTime (game (wonBranch h w)) = bestTime (game w)"
    and "recordHTML (document (wonBranch h w)) = recordHTML (document w)"
  using assms by (simp_all add: wonBranch_def Let_def)

lemma gameOver_won_storage:
  "localStorage (gameOver h True r w) = localStorage (wonBranch h (w\<lparr>game := (game w)\<lparr>isPlaying := False, hasWon := True, hasLost := False\<rparr>\<rparr>))"
  "bestTime (game (gameOver h True r w)) = bestTime (game (wonBranch h (w\<lparr>game := (game w)\<lparr>isPlaying := False, hasWon := True, hasLost := False\<rparr>\<rparr>)))"
  "recordHTML (document (gameOver h True r w)) = recordHTML (document (wonBranch h (w\<lparr>game := (game w)\<lparr>isPlaying := False, hasWon := True, hasLost := False\<rparr>\<rparr>)))"
  by (simp_all add: gameOver_def Let_def)

text \<open>
  C4. On entering Won (\<^verbatim>\<open>gameOver(true)\<close>) with the race time \<open>t\<close>: if nothing is stored as
  best time (null or the empty string), or the stored string parses to a number that \<open>t\<close> is
  strictly below, then the stored best time, \<^verbatim>\<open>gameState.bestTime\<close> and the record display
  become \<open>t\<close> formatted to two decimals and the new-record notice is added to the message; if
  the stored string parses to a number that \<open>t\<close> is equal to or above, the storage, the best
  time and the record display stay as they were and the message has no new-record notice.
\<close>

theorem best_time_updated_only_when_improved:
  "let t = raceTime (game w);
       prev = localStorage w;
       time = toFixed2 h t;
       w' = gameOver h True reason w
   in ((prev = None \<or> prev = Some [] \<or> (\<exists>s b. prev = Some s \<and> parseFloat h s = Num b \<and> t < b)) \<longrightarrow>
         localStorage w' = Some time \<and> bestTime (game w') = Some time
         \<and> recordHTML (document w') = Some time
         \<and> messageHTML (document w') = [YouWon time, NewRecord (orElse prev ''N/A'')])
      \<and> ((\<exists>s b. prev = Some s \<and> s \<noteq> [] \<and> parseFloat h s = Num b \<and> b \<le> t) \<longrightarrow>
         localStorage w' = prev \<and> bestTime (game w') = bestTime (game w)
         \<and> recordHTML (document w') = recordHTML (document w)
         \<and> messageHTML (document w') = [YouWon time])"
proof -
  let ?w1 = "w\<lparr>game := (game w)\<lparr>isPlaying := False, hasWon := True, hasLost := False\<rparr>\<rparr>"
  have g: "raceTime (game ?w1) = raceTime (game w)" "localStorage ?w1 = localStorage w"
    "bestTime (game ?w1) = bestTime (game w)" "recordHTML (document ?w1) = recordHTML (document w)"
    by simp_all
  have new: "isNewRecord h (raceTime (game w)) (localStorage w)"
    if "localStorage w = None \<or> localStorage w = Some []
        \<or> (\<exists>s b. localStorage w = Some s \<and> parseFloat h s = Num b \<and> raceTime (game w) < b)"
    using that by (auto simp: isNewRecord_def)
  have old: "\<not> isNewRecord h (raceTime (game w)) (localStorage w)"
    if "\<exists>s b. localStorage w = Some s \<and> s \<noteq> [] \<and> parseFloat h s = Num b \<and> b \<le> raceTime (game w)"
    using that by (auto simp: isNewRecord_def)
  have 1: "localStorage (gameOver h True reason w) = Some (toFixed2 h (raceTime (game w)))
        \<and> bestTime (game (gameOver h True reason w)) = Some (toFixed2 h (raceTime (game w)))
        \<and> recordHTML (document (gameOver h True reason w)) = Some (toFixed2 h (raceTime (game w)))
        \<and> messageHTML (document (gameOver h True reason w))
            = [YouWon (toFixed2 h (raceTime (game w))), NewRecord (orElse (localStorage w) ''N/A'')]"
    if "isNewRecord h (raceTime (game w)) (localStorage w)"
    using that wonBranch_new_record [of h ?w1]
    by (simp add: gameOver_won_storage gameOver_won_message)
  have 2: "localStorage (gameOver h True reason w) = localStorage w
        \<and> bestTime (game (gameOver h True reason w)) = bestTime (game w)
        \<and> recordHTML (document (gameOver h True reason w)) = recordHTML (document w)
        \<and> messageHTML (document (gameOver h True reason w)) = [YouWon (toFixed2 h (raceTime (game w)))]"
    if "\<not> isNewRecord h (raceTime (game w)) (localStorage w)"
    using that wonBranch_no_record [of h ?w1]
    by (simp add: gameOver_won_storage gameOver_won_message)
  show ?thesis
    unfolding Let_def using new old 1 2 by blast
qed

lemma sample_times:
  "toFixed2 sampleHost 12.5 = ''12.50''"
  "parseFloat sampleHost ''13.20'' = Num 13.2"
  "parseFloat sampleHost ''12.50'' = Num 12.5"
  by (simp_all add: sampleHost_def sampleToFixed2_def decimalDigits.simps digitChar_def
      sampleParseFloat_def)

theorem best_time_updated_only_when_improved_witness:
  "localStorage (gameOver sampleHost True None (finishedWorld 12.5 None)) = Some ''12.50''
   \<and> messageHTML (document (gameOver sampleHost True None (finishedWorld 12.5 None)))
       = [YouWon ''12.50'', NewRecord ''N/A'']
   \<and> parseFloat sampleHost ''13.20'' = Num 13.2 \<and> (12.5::real) < 13.2
   \<and> localStorage (gameOver sampleHost True None (finishedWorld 12.5 (Some ''13.20''))) = Some ''12.50''
   \<and> messageHTML (document (gameOver sampleHost True None (finishedWorld 12.5 (Some ''13.20''))))
       = [YouWon ''12.50'', NewRecord ''13.20'']
   \<and> parseFloat sampleHost ''12.50'' = Num 12.5 \<and> (12.5::real) \<le> 12.5
   \<and> localStorage (gameOver sampleHost True None (finishedWorld 12.5 (Some ''12.50''))) = Some ''12.50''
   \<and> messageHTML (document (gameOver sampleHost True None (finishedWorld 12.5 (Some ''12.50''))))
       = [YouWon ''12.50'']"
proof -
  have f: "raceTime (game (finishedWorld 12.5 s)) = 12.5" "localStorage (finishedWorld 12.5 s) = s" for s
    by (simp_all add: finishedWorld_def)
  have h: "toFixed2 sampleHost 12.5 = ''12.50''" "parseFloat sampleHost ''13.20'' = Num 13.2"
    "parseFloat sampleHost ''12.50'' = Num 12.5"
    by (fact sample_times)+
  have o: "orElse None ''N/A'' = ''N/A''" "orElse (Some ''13.20'') ''N/A'' = ''13.20''"
    by (simp_all add: orElse_def)
  have a: "localStorage (gameOver sampleHost True None (finishedWorld 12.5 None)) = Some ''12.50''
     \<and> messageHTML (document (gameOver sampleHost True None (finishedWorld 12.5 None)))
       = [YouWon ''12.50'', NewRecord ''N/A'']"
    using best_time_updated_only_when_improved [of "finishedWorld 12.5 None" sampleHost None]
    unfolding Let_def f h o by blast
  have lt: "(12.5::real) < 13.2" by simp
  then have b: "localStorage (gameOver sampleHost True None (finishedWorld 12.5 (Some ''13.20''))) = Some ''12.50''
     \<and> messageHTML (document (gameOver sampleHost True None (finishedWorld 12.5 (Some ''13.20''))))
       = [YouWon ''12.50'', NewRecord ''13.20'']"
    using best_time_updated_only_when_improved [of "finishedWorld 12.5 (Some ''13.20'')" sampleHost None] h(2)
    unfolding Let_def f h(1) o by blast
  have le: "(12.5::real) \<le> 12.5" "''12.50'' \<noteq> []" by simp_all
  then have c: "localStorage (gameOver sampleHost True None (finishedWorld 12.5 (Some ''12.50''))) = Some ''12.50''
     \<and> messageHTML (document (gameOver sampleHost True None (finishedWorld 12.5 (Some ''12.50''))))
       = [YouWon ''12.50'']"
    using best_time_updated_only_when_improved [of "finishedWorld 12.5 (Some ''12.50'')" sampleHost None] h(3)
    unfolding Let_def f h(1) by blast
  show ?thesis using a b c h(2,3) lt le(1) by blast
qed

subsection \<open>The camera\<close>

text \<open>
  C8. For a loaded car, a call of \<^verbatim>\<open>updateCarCamera\<close> with \<open>delta = 0\<close> puts the camera exactly
  at the ideal position (the car's position plus the offset behind the heading, built from
  \<^verbatim>\<open>cameraDistance\<close> and \<^verbatim>\<open>cameraHeight\<close> and scaled with the speed) and turns it exactly to the
  ideal look-ahead point, with no interpolation; with \<open>delta > 0\<close> the position moves the
  fraction \<open>cameraSmooth * delta\<close> of the way from the old position to the ideal one, and the
  camera turns to the point the fraction \<open>cameraSmooth * delta\<close> of the way from the point ten
  units ahead of it to the ideal look-ahead point.
\<close>

theorem camera_snaps_at_zero_delta:
  assumes "car w = Some c"
  shows "let v = vehicle w;
             p = car_position c;
             cam' = camera (updateCarCamera h delta w);
             alpha = cameraSmooth v * delta;
             scale = 1 + \<bar>velocity v * 0.1\<bar> * 0.05;
             lookAheadDistance = cameraLookAhead v + \<bar>velocity v\<bar> * 0.2
         in (delta = 0 \<longrightarrow>
               cam_position cam' = idealPosition v c \<and> cam_target cam' = idealLookAt v c)
            \<and> (delta > 0 \<longrightarrow>
               cam_position cam' = vlerp (cam_position (camera w)) (idealPosition v c) alpha
               \<and> cam_target cam' =
                   vlerp (vadd (multiplyScalar
                                  (getWorldDirection h ((camera w)\<lparr>cam_position := cam_position cam'\<rparr>)) 10)
                               (cam_position cam'))
                         (idealLookAt v c) alpha)
            \<and> idealPosition v c =
                 \<lparr>vec_x = vec_x p + - sin (rotation v) * cameraDistance v * scale,
                  vec_y = vec_y p + cameraHeight v * scale,
                  vec_z = vec_z p + - cos (rotation v) * cameraDistance v * scale\<rparr>
            \<and> idealLookAt v c =
                 \<lparr>vec_x = vec_x p + sin (rotation v) * lookAheadDistance,
                  vec_y = vec_y p + 1,
                  vec_z = vec_z p + cos (rotation v) * lookAheadDistance\<rparr>"
proof -
  have snap: "cam_position (camera (updateCarCamera h delta w)) = idealPosition (vehicle w) c
      \<and> cam_target (camera (updateCarCamera h delta w)) = idealLookAt (vehicle w) c"
    if "delta = 0"
    using that assms by (simp add: updateCarCamera_def lookAt_def Let_def)
  have ease: "cam_position (camera (updateCarCamera h delta w))
        = vlerp (cam_position (camera w)) (idealPosition (vehicle w) c) (cameraSmooth (vehicle w) * delta)
      \<and> cam_target (camera (updateCarCamera h delta w)) =
          vlerp (vadd (multiplyScalar
                   (getWorldDirection h
                      ((camera w)\<lparr>cam_position := cam_position (camera (updateCarCamera h delta w))\<rparr>)) 10)
                   (cam_position (camera (updateCarCamera h delta w))))
                (idealLookAt (vehicle w) c) (cameraSmooth (vehicle w) * delta)"
    if "delta > 0"
    using that assms by (simp add: updateCarCamera_def lookAt_def Let_def)
  have ip: "idealPosition (vehicle w) c =
      \<lparr>vec_x = vec_x (car_position c)
          + - sin (rotation (vehicle w)) * cameraDistance (vehicle w) * (1 + \<bar>velocity (vehicle w) * 0.1\<bar> * 0.05),
       vec_y = vec_y (car_position c) + cameraHeight (vehicle w) * (1 + \<bar>velocity (vehicle w) * 0.1\<bar> * 0.05),
       vec_z = vec_z (car_position c)
          + - cos (rotation (vehicle w)) * cameraDistance (vehicle w) * (1 + \<bar>velocity (vehicle w) * 0.1\<bar> * 0.05)\<rparr>"
    by (simp add: idealPosition_def vadd_def multiplyScalar_def Let_def)
  have il: "idealLookAt (vehicle w) c =
      \<lparr>vec_x = vec_x (car_position c)
          + sin (rotation (vehicle w)) * (cameraLookAhead (vehicle w) + \<bar>velocity (vehicle w)\<bar> * 0.2),
       vec_y = vec_y (car_position c) + 1,
       vec_z = vec_z (car_position c)
          + cos (rotation (vehicle w)) * (cameraLookAhead (vehicle w) + \<bar>velocity (vehicle w)\<bar> * 0.2)\<rparr>"
    by (simp add: idealLookAt_def Let_def)
  show ?thesis
    unfolding Let_def using snap ease ip il by blast
qed

lemma sample_ideal_camera:
  "idealPosition (raceVehicle\<lparr>velocity := 10\<rparr>) (carAt 0 0) = \<lparr>vec_x = 0, vec_y = 4.3, vec_z = 8.4\<rparr>"
  "idealLookAt (raceVehicle\<lparr>velocity := 10\<rparr>) (carAt 0 0) = \<lparr>vec_x = 0, vec_y = 1.1, vec_z = - 4\<rparr>"
  by (simp_all add: idealPosition_def idealLookAt_def raceVehicle_def carAt_def vadd_def
      multiplyScalar_def Let_def)

theorem camera_snaps_at_zero_delta_witness:
  "car (raceWorld (raceVehicle\<lparr>velocity := 10\<rparr>) 0 0) = Some (carAt 0 0)
   \<and> cam_position (camera (updateCarCamera sampleHost 0 (raceWorld (raceVehicle\<lparr>velocity := 10\<rparr>) 0 0)))
       = \<lparr>vec_x = 0, vec_y = 4.3, vec_z = 8.4\<rparr>
   \<and> cam_target (camera (updateCarCamera sampleHost 0 (raceWorld (raceVehicle\<lparr>velocity := 10\<rparr>) 0 0)))
       = \<lparr>vec_x = 0, vec_y = 1.1, vec_z = - 4\<rparr>
   \<and> cam_position (camera (updateCarCamera sampleHost 0.1 (raceWorld (raceVehicle\<lparr>velocity := 10\<rparr>) 0 0)))
       = \<lparr>vec_x = 0, vec_y = 4.26, vec_z = 8.32\<rparr>"
proof -
  let ?v = "raceVehicle\<lparr>velocity := 10\<rparr>"
  let ?w = "raceWorld ?v 0 0"
  have a: "car ?w = Some (carAt 0 0)" by (simp add: raceWorld_def)
  have v: "vehicle ?w = ?v" by (simp add: raceWorld_def)
  have z: "(0::real) = 0" and pos: "(0.1::real) > 0" by simp_all
  have s: "cam_position (camera (updateCarCamera sampleHost 0 ?w)) = idealPosition ?v (carAt 0 0)
         \<and> cam_target (camera (updateCarCamera sampleHost 0 ?w)) = idealLookAt ?v (carAt 0 0)"
    using camera_snaps_at_zero_delta [OF a, of sampleHost 0] z unfolding Let_def v by blast
  have e: "cam_position (camera (updateCarCamera sampleHost 0.1 ?w))
         = vlerp (cam_position (camera ?w)) (idealPosition ?v (carAt 0 0)) (cameraSmooth ?v * 0.1)"
    using camera_snaps_at_zero_delta [OF a, of sampleHost "0.1"] pos unfolding Let_def v by blast
  have l: "vlerp (cam_position (camera ?w)) \<lparr>vec_x = 0, vec_y = 4.3, vec_z = 8.4\<rparr> (cameraSmooth ?v * 0.1)
         = \<lparr>vec_x = 0, vec_y = 4.26, vec_z = 8.32\<rparr>"
    by (simp add: vlerp_def raceWorld_def raceVehicle_def)
  show ?thesis
    using a s e l unfolding sample_ideal_camera by simp
qed

subsection \<open>The height of the car\<close>

lemma updateVehiclePhysics_car_height:
  assumes "car w = Some c" and "isPlaying (game w) \<or> freeRoam (game w)"
  shows "map_option (\<lambda>c'. vec_y (car_position c')) (car (updateVehiclePhysics h now delta w))
           = Some (carGroundLevel (game w))
         \<and> carGroundLevel (game (updateVehiclePhysics h now delta w)) = carGroundLevel (game w)"
proof -
  obtain c' where c': "car (physicsBlocks now delta w c) = Some c'"
      "vec_y (car_position c') = carGroundLevel (game w)"
    using physicsBlocks_car_height by blast
  have k: "map_option car_position (car (checkCollisions h (physicsBlocks now delta w c)))
           = Some (car_position c')"
    by (simp add: checkCollisions_keeps c')
  have "map_option (\<lambda>c'. vec_y (car_position c')) (car (checkCollisions h (physicsBlocks now delta w c)))
           = Some (carGroundLevel (game w))"
    using k c'(2) by (cases "car (checkCollisions h (physicsBlocks now delta w c))") auto
  then show ?thesis
    using c' by (simp add: updateVehiclePhysics_running [OF assms] updateCarCamera_car
        updateCarCamera_game checkCollisions_keeps physicsBlocks_game)
qed

text \<open>
  C10. Every call of \<^verbatim>\<open>updateVehiclePhysics\<close> that runs (the car is loaded and the game is
  playing or in free roam) ends with the car's \<open>y\<close> position equal to
  \<^verbatim>\<open>gameState.carGroundLevel\<close>, for every input, every \<open>delta\<close> and every state before the
  call, and does not change \<^verbatim>\<open>carGroundLevel\<close>. A call that returns at its guard leaves the
  car where it is, so a car at the ground level stays there.
\<close>

theorem car_stays_at_ground_level:
  assumes "car w = Some c"
    and "isPlaying (game w) \<or> freeRoam (game w) \<or> vec_y (car_position c) = carGroundLevel (game w)"
  shows "\<exists>c'. car (updateVehiclePhysics h now delta w) = Some c'
           \<and> vec_y (car_position c') = carGroundLevel (game (updateVehiclePhysics h now delta w))
           \<and> carGroundLevel (game (updateVehiclePhysics h now delta w)) = carGroundLevel (game w)"
proof (cases "isPlaying (game w) \<or> freeRoam (game w)")
  case True
  show ?thesis
    using updateVehiclePhysics_car_height [OF assms(1) True, of h now delta]
    by (cases "car (updateVehiclePhysics h now delta w)") auto
next
  case False
  then have "updateVehiclePhysics h now delta w = w"
    by (simp add: updateVehiclePhysics_idle)
  then show ?thesis using assms False by simp
qed

theorem car_stays_at_ground_level_witness:
  "car (drivingWorld True) = Some ((carAt 0 (- 10))\<lparr>car_position := \<lparr>vec_x = 0, vec_y = 3, vec_z = - 10\<rparr>\<rparr>)
   \<and> isPlaying (game (drivingWorld True))
   \<and> carGroundLevel (game (drivingWorld True)) = 0.1
   \<and> (\<exists>c'. car (updateVehiclePhysics sampleHost 0 0.1 (drivingWorld True)) = Some c'
           \<and> vec_y (car_position c') = 0.1)"
proof -
  have a: "car (drivingWorld True) = Some ((carAt 0 (- 10))\<lparr>car_position := \<lparr>vec_x = 0, vec_y = 3, vec_z = - 10\<rparr>\<rparr>)"
    by (simp add: drivingWorld_def)
  have p: "isPlaying (game (drivingWorld True))"
    by (simp add: drivingWorld_def raceWorld_def raceGame_def)
  then have b: "isPlaying (game (drivingWorld True)) \<or> freeRoam (game (drivingWorld True))
      \<or> vec_y (car_position ((carAt 0 (- 10))\<lparr>car_position := \<lparr>vec_x = 0, vec_y = 3, vec_z = - 10\<rparr>\<rparr>))
          = carGroundLevel (game (drivingWorld True))" by simp
  have g: "carGroundLevel (game (drivingWorld True)) = 0.1"
    by (simp add: drivingWorld_def raceWorld_def raceGame_def)
  show ?thesis
    using a p g car_stays_at_ground_level [OF a b, of sampleHost 0 "0.1"] by metis
qed

subsection \<open>Accelerating\<close>





















end
